theory Spec2Isabelle
  imports Main "HOL-Library.Word"
begin

unbundle bit_operations_syntax

section \<open>Errors and channels\<close>

text \<open>
  A Go \<open>error\<close> value is either one of the sentinels of package \<open>component\<close> or an
  error built from a message (\<open>fmt.Errorf\<close>, a driver's error). A Go variable of type
  \<open>error\<close> is an \<open>error option\<close>: \<open>None\<close> is \<open>nil\<close>.
\<close>

datatype error = ErrAlreadyStarted | ErrNotConnected | ErrTimeout | Errorf string

text \<open>
  A channel of transactions is known by its identity only. A Go variable of channel type
  is a \<open>chan option\<close>: \<open>None\<close> is the \<open>nil\<close> channel.
\<close>

type_synonym chan = nat

section \<open>The fan-out output broker (output\_broker\_fan\_out.go)\<close>

text \<open>
  The variables the ack callback of one consumed transaction \<open>ts\<close> works on:
  \<open>pendingResponses\<close> is the counter the loop body declares for \<open>ts\<close> and the callbacks
  of its copies capture, \<open>ackPending\<close> is the loop's counter of transactions not yet
  acked upstream, and \<open>acked\<close> is the trace of the calls \<open>ts.Ack(ctx, err)\<close> made so
  far, oldest first, each by its \<open>err\<close> argument. The counters are \<open>int64\<close> in the
  source; for a broker of N children they stay between \<open>-N\<close> and the number of
  transactions in flight, so they are modelled as \<open>int\<close>.
\<close>

record ack_state =
  pendingResponses :: int
  ackPending :: int
  acked :: "error option list"

definition loop_start :: ack_state where
  "loop_start = \<lparr>pendingResponses = 0, ackPending = 0, acked = []\<rparr>"

text \<open>
  Lines 94-95 of \<open>loop\<close>: a transaction has been read from the incoming edge; \<open>n\<close> is
  \<open>len(o.outputTSChans)\<close>. Nothing has been acked upstream for it yet.
\<close>

definition dispatch :: "nat \<Rightarrow> ack_state \<Rightarrow> ack_state" where
  "dispatch n s = s\<lparr>ackPending := ackPending s + 1, pendingResponses := int n, acked := []\<rparr>"

text \<open>
  The callback the loop hands to every child with its copy of the batch (lines 99-111).
  \<open>tsAck\<close> is what the upstream's own \<open>Ack\<close> answers; the callback returns that answer
  when it acks upstream and \<open>nil\<close> otherwise. The signal on \<open>ackInterruptChan\<close> carries
  no data and is left out. One run of the callback is one step: the claims below are
  about the order in which the callbacks fire.
\<close>

definition ack_callback ::
  "(error option \<Rightarrow> error option) \<Rightarrow> error option \<Rightarrow> ack_state \<Rightarrow> error option \<times> ack_state" where
  "ack_callback tsAck err s =
     (let p = pendingResponses s - 1 in
      if p = 0 \<or> err \<noteq> None
      then (tsAck err,
            s\<lparr>pendingResponses := 0, acked := acked s @ [err], ackPending := ackPending s - 1\<rparr>)
      else (None, s\<lparr>pendingResponses := p\<rparr>))"

text \<open>The children ack in some order: \<open>errs\<close> lists what each callback is called with.\<close>

fun fire_acks ::
  "(error option \<Rightarrow> error option) \<Rightarrow> error option list \<Rightarrow> ack_state \<Rightarrow> ack_state" where
  "fire_acks tsAck [] s = s"
| "fire_acks tsAck (e # es) s = fire_acks tsAck es (snd (ack_callback tsAck e s))"

text \<open>An upstream whose \<open>Ack\<close> answers \<open>nil\<close>.\<close>

definition ack_ok :: "error option \<Rightarrow> error option" where
  "ack_ok e = None"


section \<open>Consume (output\_broker\_fan\_out.go, resource.go)\<close>

text \<open>
  The fan-out broker: the incoming edge (\<open>nil\<close> until \<open>Consume\<close> binds it), the edges to
  the children, and the number of \<open>loop\<close> goroutines started so far (\<open>go o.loop()\<close>).
\<close>

record fanOutOutputBroker =
  transactions :: "chan option"
  outputTSChans :: "chan list"
  loops_started :: nat

text \<open>
  \<open>newFanOutOutputBroker\<close>: one channel is made per child and handed to the child's
  \<open>Consume\<close>; \<open>answers\<close> lists what each child's \<open>Consume\<close> returns, and the first
  error among them is the constructor's error.
\<close>

fun consume_outputs :: "nat \<Rightarrow> error option list \<Rightarrow> error + chan list" where
  "consume_outputs i [] = Inr []"
| "consume_outputs i (Some e # answers) = Inl e"
| "consume_outputs i (None # answers) =
     (case consume_outputs (Suc i) answers of Inl e \<Rightarrow> Inl e | Inr cs \<Rightarrow> Inr (i # cs))"

definition newFanOutOutputBroker :: "error option list \<Rightarrow> error + fanOutOutputBroker" where
  "newFanOutOutputBroker answers =
     (case consume_outputs 0 answers of
        Inl e \<Rightarrow> Inl e
      | Inr cs \<Rightarrow> Inr \<lparr>transactions = None, outputTSChans = cs, loops_started = 0\<rparr>)"

definition fanOutOutputBroker_Consume ::
  "fanOutOutputBroker \<Rightarrow> chan option \<Rightarrow> error option \<times> fanOutOutputBroker" where
  "fanOutOutputBroker_Consume b ts =
     (if transactions b \<noteq> None then (Some ErrAlreadyStarted, b)
      else (None, b\<lparr>transactions := ts, loops_started := Suc (loops_started b)\<rparr>))"

text \<open>
  The manager is an interface value (\<open>interop.Manager\<close>); of its methods the resource
  output's constructor calls \<open>ProbeOutput\<close>.
\<close>

record manager =
  ProbeOutput :: "string \<Rightarrow> bool"

record Config =
  Resource :: string

text \<open>
  The resource output: the label, the incoming edge, whether \<open>ctx\<close> has been cancelled
  (\<open>done\<close> was called), and the number of \<open>loop\<close> goroutines started.
\<close>

record Resource_output =
  name :: string
  res_transactions :: "chan option"
  ctx_done :: bool
  res_loops_started :: nat

definition NewResource :: "Config \<Rightarrow> manager \<Rightarrow> error + Resource_output" where
  "NewResource conf mgr =
     (if \<not> ProbeOutput mgr (Resource conf)
      then Inl (Errorf (''output resource '' @ [CHR 0x27] @ Resource conf @ [CHR 0x27] @ '' was not found''))
      else Inr \<lparr>name = Resource conf, res_transactions = None, ctx_done = False,
                res_loops_started = 0\<rparr>)"

definition Resource_Consume ::
  "Resource_output \<Rightarrow> chan option \<Rightarrow> error option \<times> Resource_output" where
  "Resource_Consume r ts =
     (if res_transactions r \<noteq> None then (Some ErrAlreadyStarted, r)
      else (None, r\<lparr>res_transactions := ts, res_loops_started := Suc (res_loops_started r)\<rparr>))"

text \<open>
  A sequence of calls of a \<open>Consume\<close> on one instance: the answers in order, and the
  instance afterwards.
\<close>

fun calls :: "('s \<Rightarrow> 'a \<Rightarrow> 'r \<times> 's) \<Rightarrow> 's \<Rightarrow> 'a list \<Rightarrow> 'r list \<times> 's" where
  "calls f s [] = ([], s)"
| "calls f s (a # as) =
     (case f s a of (r, s') \<Rightarrow> (case calls f s' as of (rs, s'') \<Rightarrow> (r # rs, s'')))"

text \<open>A manager that holds the output resource \<open>foo\<close> and no other.\<close>

definition mgr_foo :: manager where
  "mgr_foo = \<lparr>ProbeOutput = (\<lambda>label. label = ''foo'')\<rparr>"

section \<open>Messages\<close>

text \<open>
  Modelled from the spec: package \<open>message\<close> is not among the sources. A part is "an
  opaque byte payload plus a mutable metadata mapping (string to string) plus a
  structured-value cache (populated lazily from JSON)", and it carries a context; of the
  context the model keeps the collapsed count. A batch is "an ordered sequence of
  parts". Parts are values: a copy is the part itself.
\<close>

type_synonym byte = "8 word"

datatype json = JNull | JBool bool | JNumber string | JString string
  | JArray "json list" | JObject "(string \<times> json) list"

record part =
  data :: "byte list"
  metadata :: "(string \<times> string) list"
  structured :: "json option"
  collapsed :: "nat option"

type_synonym batch = "part list"

text \<open>\<open>part.Set(b)\<close> replaces the payload; the cached structured value no longer holds.\<close>

definition Set_bytes :: "byte list \<Rightarrow> part \<Rightarrow> part" where
  "Set_bytes b p = p\<lparr>data := b, structured := None\<rparr>"

text \<open>
  Modelled from the spec: \<open>batch.WithCollapsedCount\<close> is not among the sources. The
  collapsed count is "set by archive/concatenate processors so that downstream ack
  accounting reflects the original batch size".
\<close>

definition WithCollapsedCount :: "part \<Rightarrow> nat \<Rightarrow> part" where
  "WithCollapsedCount p n = p\<lparr>collapsed := Some n\<rparr>"

section \<open>The Redis list writer (writer/redis\_list.go) and the MQTT writer\<close>

text \<open>
  Modelled from the spec: package \<open>batch\<close> (\<open>ibatch\<close>) is not among the sources. A
  batch-error is "a structured error carrying per-index outcomes": the error it was
  made from, the batch, and the error recorded for each failed index.
\<close>

record batch_error =
  be_err :: error
  be_source :: batch
  partErrors :: "nat \<rightharpoonup> error"

definition NewError :: "batch \<Rightarrow> error \<Rightarrow> batch_error" where
  "NewError msg e = \<lparr>be_err = e, be_source = msg, partErrors = Map.empty\<rparr>"

definition Failed :: "nat \<Rightarrow> error \<Rightarrow> batch_error \<Rightarrow> batch_error" where
  "Failed i e b = b\<lparr>partErrors := (partErrors b)(i \<mapsto> e)\<rparr>"

text \<open>What a write returns when it is not \<open>nil\<close>: a plain error or a batch-error.\<close>

datatype write_error = Plain error | Batch batch_error

text \<open>
  The Redis client is the go-redis library: \<open>RPush\<close> is \<open>client.RPush(key, v).Err()\<close>,
  and \<open>Exec\<close> is \<open>pipe.Exec()\<close> on the commands queued on the pipeline, answering
  each command's \<open>Err()\<close> in order and the error of the exec itself.
\<close>

record redis_client =
  RPush :: "string \<Rightarrow> byte list \<Rightarrow> error option"
  Exec :: "(string \<times> byte list) list \<Rightarrow> error option list \<times> error option"

text \<open>
  The writer: the client (\<open>nil\<close> until \<open>Connect\<close> succeeds), the key expression
  (\<open>r.keyStr.String(index, msg)\<close>), and the goroutines \<open>CloseAsync\<close> has started that
  have not run yet.
\<close>

record RedisList =
  client :: "redis_client option"
  keyStr :: "nat \<Rightarrow> batch \<Rightarrow> string"
  closers :: nat

definition disconnect :: "RedisList \<Rightarrow> RedisList" where
  "disconnect r = r\<lparr>client := None\<rparr>"

text \<open>The loop over \<open>cmders\<close> (lines 141-149), from index \<open>i\<close> on.\<close>

fun mark_failed :: "batch \<Rightarrow> nat \<Rightarrow> error option list \<Rightarrow> batch_error option \<Rightarrow> batch_error option" where
  "mark_failed msg i [] batchErr = batchErr"
| "mark_failed msg i (None # cmders) batchErr = mark_failed msg (Suc i) cmders batchErr"
| "mark_failed msg i (Some e # cmders) batchErr =
     mark_failed msg (Suc i) cmders
       (Some (Failed i e (case batchErr of None \<Rightarrow> NewError msg e | Some b \<Rightarrow> b)))"

definition WriteWithContext :: "RedisList \<Rightarrow> batch \<Rightarrow> write_error option \<times> RedisList" where
  "WriteWithContext r msg =
     (case client r of
        None \<Rightarrow> (Some (Plain ErrNotConnected), r)
      | Some c \<Rightarrow>
          (case msg of
             [p] \<Rightarrow>
               (case RPush c (keyStr r 0 msg) (data p) of
                  Some e \<Rightarrow> (Some (Plain ErrNotConnected), disconnect r)
                | None \<Rightarrow> (None, r))
           | _ \<Rightarrow>
               (case Exec c (map (\<lambda>p. (keyStr r 0 msg, data p)) msg) of
                  (cmders, Some e) \<Rightarrow> (Some (Plain ErrNotConnected), disconnect r)
                | (cmders, None) \<Rightarrow>
                    (case mark_failed msg 0 cmders None of
                       Some batchErr \<Rightarrow> (Some (Batch batchErr), r)
                     | None \<Rightarrow> (None, r)))))"

text \<open>
  \<open>CloseAsync\<close> starts a goroutine and returns; the goroutine disconnects when it runs.
  \<open>WaitForClose\<close> is \<open>return nil\<close>.
\<close>

definition RedisList_CloseAsync :: "RedisList \<Rightarrow> RedisList" where
  "RedisList_CloseAsync r = r\<lparr>closers := Suc (closers r)\<rparr>"

definition RedisList_closer :: "RedisList \<Rightarrow> RedisList" where
  "RedisList_closer r = (disconnect r)\<lparr>closers := closers r - 1\<rparr>"

definition RedisList_WaitForClose :: "RedisList \<Rightarrow> int \<Rightarrow> error option" where
  "RedisList_WaitForClose r timeout = None"

text \<open>
  The MQTT writer (the unnamed source file, package \<open>writer\<close>): the client handle
  (\<open>nil\<close> while not connected) and the goroutines \<open>CloseAsync\<close> has started that have
  not run yet. \<open>WaitForClose\<close> is \<open>return nil\<close>.
\<close>

record MQTT =
  mqtt_client :: "nat option"
  mqtt_closers :: nat

definition MQTT_CloseAsync :: "MQTT \<Rightarrow> MQTT" where
  "MQTT_CloseAsync m = m\<lparr>mqtt_closers := Suc (mqtt_closers m)\<rparr>"

definition MQTT_closer :: "MQTT \<Rightarrow> MQTT" where
  "MQTT_closer m = m\<lparr>mqtt_client := None, mqtt_closers := mqtt_closers m - 1\<rparr>"

definition MQTT_WaitForClose :: "MQTT \<Rightarrow> int \<Rightarrow> error option" where
  "MQTT_WaitForClose m timeout = None"

text \<open>Concrete values for the examples below.\<close>

definition key_list :: "nat \<Rightarrow> batch \<Rightarrow> string" where
  "key_list i msg = ''list''"

definition payload :: "byte list \<Rightarrow> part" where
  "payload b = \<lparr>data = b, metadata = [], structured = None, collapsed = None\<rparr>"

definition second_fails :: redis_client where
  "second_fails =
     \<lparr>RPush = (\<lambda>key v. None),
      Exec = (\<lambda>cmds. (map (\<lambda>i. if i = 1 then Some (Errorf ''WRONGTYPE'') else None) [0..<length cmds],
                      None))\<rparr>"

definition all_succeed :: redis_client where
  "all_succeed = \<lparr>RPush = (\<lambda>key v. None), Exec = (\<lambda>cmds. (map (\<lambda>c. None) cmds, None))\<rparr>"

section \<open>The archive processor (processor/archive.go)\<close>

text \<open>
  \<open>msg.Get(0).Copy()\<close>, with which every archiver starts its result. \<open>ProcessBatch\<close>
  calls the archiver on batches that are not empty; \<open>message.Batch.Get\<close> is not among
  the sources, and on an empty batch the model answers an error.
\<close>

definition first_part :: "batch \<Rightarrow> error + part" where
  "first_part msg = (case msg of [] \<Rightarrow> Inl (Errorf ''index out of range'') | p # _ \<Rightarrow> Inr p)"

text \<open>
  \<open>fakeInfo\<close>, the \<open>os.FileInfo\<close> the processor makes up for a part: name, size and mode
  (\<open>ModTime\<close> is \<open>time.Now()\<close>, \<open>IsDir\<close> is false, \<open>Sys\<close> is \<open>nil\<close>).
\<close>

record fakeInfo =
  fi_name :: string
  fi_size :: int
  fi_mode :: nat

type_synonym headerFunc = "nat \<Rightarrow> part \<Rightarrow> fakeInfo"

type_synonym archiveFunc = "headerFunc \<Rightarrow> batch \<Rightarrow> error + part"

text \<open>
  The packages \<open>archive/tar\<close> and \<open>archive/zip\<close> are Go's library. An archiver uses
  one through four operations on a writer \<open>'w\<close> over a buffer: making the header of a
  file (\<open>FileInfoHeader\<close>), writing the header (\<open>tw.WriteHeader\<close>; for zip,
  \<open>zw.CreateHeader\<close> with the method set to \<open>Deflate\<close>), writing the file's content,
  and closing, after which the buffer holds the archive.
\<close>

record ('w, 'h) file_archiver =
  NewWriter :: 'w
  FileInfoHeader :: "fakeInfo \<Rightarrow> error + 'h"
  WriteHeader :: "'w \<Rightarrow> 'h \<Rightarrow> error + 'w"
  Write_content :: "'w \<Rightarrow> byte list \<Rightarrow> error + 'w"
  Close_buffer :: "'w \<Rightarrow> byte list"

text \<open>
  \<open>msg.Iter\<close> with the closure of \<open>tarArchive\<close> and \<open>zipArchive\<close>, from part \<open>i\<close> on:
  the iteration stops at the first error.
\<close>

fun write_files ::
  "('w, 'h) file_archiver \<Rightarrow> headerFunc \<Rightarrow> nat \<Rightarrow> batch \<Rightarrow> 'w \<Rightarrow> error option \<times> 'w" where
  "write_files pkg hFunc i [] w = (None, w)"
| "write_files pkg hFunc i (p # ps) w =
     (case FileInfoHeader pkg (hFunc i p) of
        Inl e \<Rightarrow> (Some e, w)
      | Inr hdr \<Rightarrow>
          (case WriteHeader pkg w hdr of
             Inl e \<Rightarrow> (Some e, w)
           | Inr w' \<Rightarrow>
               (case Write_content pkg w' (data p) of
                  Inl e \<Rightarrow> (Some e, w')
                | Inr w'' \<Rightarrow> write_files pkg hFunc (Suc i) ps w'')))"

definition tarArchive :: "('w, 'h) file_archiver \<Rightarrow> archiveFunc" where
  "tarArchive pkg hFunc msg =
     (case write_files pkg hFunc 0 msg (NewWriter pkg) of
        (Some e, tw) \<Rightarrow> Inl e
      | (None, tw) \<Rightarrow>
          (case first_part msg of
             Inl e \<Rightarrow> Inl e
           | Inr newPart \<Rightarrow> Inr (Set_bytes (Close_buffer pkg tw) newPart)))"

definition zipArchive :: "('w, 'h) file_archiver \<Rightarrow> archiveFunc" where
  "zipArchive pkg hFunc msg =
     (case write_files pkg hFunc 0 msg (NewWriter pkg) of
        (Some e, zw) \<Rightarrow> Inl e
      | (None, zw) \<Rightarrow>
          (case first_part msg of
             Inl e \<Rightarrow> Inl e
           | Inr newPart \<Rightarrow> Inr (Set_bytes (Close_buffer pkg zw) newPart)))"

text \<open>
  Modelled from the spec: \<open>message.ToBytes\<close> is not among the sources. The format is
  the documented one: "four bytes containing number of messages in the batch (in big
  endian)", then for each part "four bytes containing the length of the message (in big
  endian)" and "the content of message". A count or length is a \<open>uint32\<close>.
\<close>

definition be32 :: "32 word \<Rightarrow> byte list" where
  "be32 w = [ucast (drop_bit 24 w), ucast (drop_bit 16 w), ucast (drop_bit 8 w), ucast w]"

definition ToBytes :: "batch \<Rightarrow> byte list" where
  "ToBytes msg =
     be32 (of_nat (length msg)) @
     concat (map (\<lambda>p. be32 (of_nat (length (data p))) @ data p) msg)"

definition binaryArchive :: archiveFunc where
  "binaryArchive hFunc msg =
     (case first_part msg of
        Inl e \<Rightarrow> Inl e
      | Inr newPart \<Rightarrow> Inr (Set_bytes (ToBytes msg) newPart))"

text \<open>Go's \<open>bytes.Join(s, sep)\<close>.\<close>

fun bytes_Join :: "byte list list \<Rightarrow> byte list \<Rightarrow> byte list" where
  "bytes_Join [] sep = []"
| "bytes_Join [x] sep = x"
| "bytes_Join (x # y # ys) sep = x @ sep @ bytes_Join (y # ys) sep"

definition line_break :: byte where
  "line_break = 10"

definition linesArchive :: archiveFunc where
  "linesArchive hFunc msg =
     (let tmpParts = map data msg in
      case first_part msg of
        Inl e \<Rightarrow> Inl e
      | Inr newPart \<Rightarrow> Inr (Set_bytes (bytes_Join tmpParts [line_break]) newPart))"

definition concatenateArchive :: archiveFunc where
  "concatenateArchive hFunc msg =
     (let buf = concat (map data msg) in
      case first_part msg of
        Inl e \<Rightarrow> Inl e
      | Inr newPart \<Rightarrow> Inr (Set_bytes buf newPart))"

text \<open>
  \<open>encoding/json\<close> is Go's library: \<open>Unmarshal\<close> answers the document a payload holds
  or the message of the parse error, \<open>Marshal\<close> the text of a document. \<open>part.JSON()\<close>
  answers the cached structured value, or parses the payload; \<open>part.SetJSON(v)\<close> makes
  \<open>v\<close> the part's content (modelled from the spec, as the part is).
\<close>

record json_pkg =
  Unmarshal :: "byte list \<Rightarrow> string + json"
  Marshal :: "json \<Rightarrow> byte list"

definition part_JSON :: "json_pkg \<Rightarrow> part \<Rightarrow> string + json" where
  "part_JSON js p = (case structured p of Some v \<Rightarrow> Inr v | None \<Rightarrow> Unmarshal js (data p))"

definition SetJSON :: "json_pkg \<Rightarrow> json \<Rightarrow> part \<Rightarrow> part" where
  "SetJSON js v p = p\<lparr>data := Marshal js v, structured := Some v\<rparr>"

text \<open>\<open>msg.Iter\<close> with the closure of \<open>jsonArrayArchive\<close>; \<open>array\<close> is what was appended so far.\<close>

fun append_docs :: "json_pkg \<Rightarrow> batch \<Rightarrow> json list \<Rightarrow> error + json list" where
  "append_docs js [] array = Inr array"
| "append_docs js (p # ps) array =
     (case part_JSON js p of
        Inl jerr \<Rightarrow> Inl (Errorf (''failed to parse message as JSON: '' @ jerr))
      | Inr doc \<Rightarrow> append_docs js ps (array @ [doc]))"

definition jsonArrayArchive :: "json_pkg \<Rightarrow> archiveFunc" where
  "jsonArrayArchive js hFunc msg =
     (case append_docs js msg [] of
        Inl e \<Rightarrow> Inl e
      | Inr array \<Rightarrow>
          (case first_part msg of
             Inl e \<Rightarrow> Inl e
           | Inr newPart \<Rightarrow> Inr (SetJSON js (JArray array) newPart)))"

definition strToArchiver ::
  "('tw, 'th) file_archiver \<Rightarrow> ('zw, 'zh) file_archiver \<Rightarrow> json_pkg \<Rightarrow> string \<Rightarrow> error + archiveFunc" where
  "strToArchiver tar_pkg zip_pkg js str =
     (if str = ''tar'' then Inr (tarArchive tar_pkg)
      else if str = ''zip'' then Inr (zipArchive zip_pkg)
      else if str = ''binary'' then Inr binaryArchive
      else if str = ''lines'' then Inr linesArchive
      else if str = ''json_array'' then Inr (jsonArrayArchive js)
      else if str = ''concatenate'' then Inr concatenateArchive
      else Inl (Errorf (''archive format not recognised: '' @ str)))"

text \<open>
  The processor: its archiver and its path expression (\<open>d.path.String(index, msg)\<close>,
  a Bloblang field). The logger is left out.
\<close>

record archive =
  archive :: archiveFunc
  path :: "nat \<Rightarrow> batch \<Rightarrow> string"

definition createHeaderFunc :: "archive \<Rightarrow> batch \<Rightarrow> headerFunc" where
  "createHeaderFunc d msg =
     (\<lambda>index body. \<lparr>fi_name = path d index msg, fi_size = int (length (data body)), fi_mode = 438\<rparr>)"

text \<open>
  \<open>ProcessBatch\<close> returns the output batches and the error. \<open>newMsg\<close> is a copy of the
  batch whose parts \<open>SetAll\<close> replaces by the one new part.
\<close>

definition ProcessBatch :: "archive \<Rightarrow> batch \<Rightarrow> batch list \<times> error option" where
  "ProcessBatch d msg =
     (if length msg = 0 then ([], None)
      else (case archive d (createHeaderFunc d msg) msg of
              Inl err \<Rightarrow> ([], Some err)
            | Inr newPart \<Rightarrow> ([[WithCollapsedCount newPart (length msg)]], None)))"

section \<open>Unarchiving\<close>






text \<open>Concrete values for the examples below.\<close>

definition path_txt :: "nat \<Rightarrow> batch \<Rightarrow> string" where
  "path_txt index msg = ''part.txt''"

text \<open>
  \<open>encoding/json\<close> cut down to what the examples need: the only documents it knows
  are \<open>null\<close> (the bytes 110, 117, 108, 108) and arrays of such documents (91 and 93 are
  the brackets, 44 the comma). It takes no other payload for a JSON document, as the
  library does with the payload \<open>{\<close> (the byte 123) of the example.
\<close>

fun marshal_nulls :: "json \<Rightarrow> byte list" where
  "marshal_nulls (JArray vs) = [91] @ bytes_Join (map marshal_nulls vs) [44] @ [93]"
| "marshal_nulls v = [110, 117, 108, 108]"

definition null_only :: json_pkg where
  "null_only =
     \<lparr>Unmarshal = (\<lambda>b. if b = [110, 117, 108, 108] then Inr JNull
                       else Inl ''unexpected end of JSON input''),
      Marshal = marshal_nulls\<rparr>"

section \<open>Fan-out: ack aggregation\<close>

lemma fire_acks_snoc:
  "fire_acks tsAck (es @ [e]) s = snd (ack_callback tsAck e (fire_acks tsAck es s))"
  by (induction es arbitrary: s) simp_all

lemma fire_acks_all_nil:
  "\<lbrakk>\<forall>e\<in>set errs. e = None; length errs < n\<rbrakk> \<Longrightarrow>
     pendingResponses (fire_acks tsAck errs (dispatch n s)) = int n - int (length errs) \<and>
     acked (fire_acks tsAck errs (dispatch n s)) = []"
proof (induction errs rule: rev_induct)
  case Nil
  then show ?case by (simp add: dispatch_def)
next
  case (snoc e es)
  then have nil: "e = None" and len: "Suc (length es) < n"
    and ih: "pendingResponses (fire_acks tsAck es (dispatch n s)) = int n - int (length es)"
            "acked (fire_acks tsAck es (dispatch n s)) = []"
    by simp_all
  from len have "int n - int (length es) - 1 \<noteq> 0" by linarith
  with nil ih show ?case
    by (simp add: fire_acks_snoc ack_callback_def Let_def)
qed

lemma fire_acks_all_nil_complete:
  assumes "\<forall>e\<in>set errs. e = None" and "length errs = n" and "1 \<le> n"
  shows "acked (fire_acks tsAck errs (dispatch n s)) = [None]"
proof -
  from assms obtain es where errs: "errs = es @ [None]"
    by (cases errs rule: rev_cases) auto
  with assms have "\<forall>e\<in>set es. e = None" and "length es < n" by auto
  from fire_acks_all_nil [OF this, of tsAck s] assms(2) errs
  show ?thesis
    by (simp add: fire_acks_snoc ack_callback_def Let_def)
qed

lemma fire_acks_some_error:
  "\<lbrakk>\<exists>e\<in>set errs. e \<noteq> None; length errs \<le> n\<rbrakk> \<Longrightarrow>
     pendingResponses (fire_acks tsAck errs (dispatch n s)) \<le> 0 \<and>
     acked (fire_acks tsAck errs (dispatch n s)) = filter (\<lambda>e. e \<noteq> None) errs"
proof (induction errs rule: rev_induct)
  case Nil
  then show ?case by simp
next
  case (snoc e es)
  show ?case
  proof (cases "\<exists>x\<in>set es. x \<noteq> None")
    case True
    with snoc have "pendingResponses (fire_acks tsAck es (dispatch n s)) \<le> 0"
      and "acked (fire_acks tsAck es (dispatch n s)) = filter (\<lambda>e. e \<noteq> None) es"
      by simp_all
    then show ?thesis
      by (simp add: fire_acks_snoc ack_callback_def Let_def)
  next
    case False
    with snoc.prems have e: "e \<noteq> None" and nil: "\<forall>x\<in>set es. x = None" and "length es < n"
      by auto
    from fire_acks_all_nil [OF nil \<open>length es < n\<close>, of tsAck s] e nil show ?thesis
      by (simp add: fire_acks_snoc ack_callback_def Let_def filter_empty_conv [THEN iffD2])
  qed
qed


text \<open>
  C1. The claim: for a broker of N \<open>\<ge>\<close> 1 children the upstream ack is invoked exactly
  once, whichever children ack with \<open>nil\<close> and whichever with an error. The callback
  resets the counter to 0 when it acks upstream, which silences the \<open>nil\<close> acks that
  follow, but a later ack with an error passes the test \<open>err != nil\<close> again: with two
  children that both ack with an error the upstream is acked twice, and \<open>ackPending\<close>
  falls below zero.
\<close>

theorem fan_out_two_errors_ack_upstream_twice:
  "acked (fire_acks ack_ok [Some (Errorf ''a''), Some (Errorf ''b'')] (dispatch 2 loop_start))
     = [Some (Errorf ''a''), Some (Errorf ''b'')] \<and>
   ackPending (fire_acks ack_ok [Some (Errorf ''a''), Some (Errorf ''b'')] (dispatch 2 loop_start))
     = - 1"
  by (simp add: dispatch_def loop_start_def ack_callback_def ack_ok_def Let_def)



text \<open>
  C3. The claim: the upstream ack fires only after all N child acks have fired, also in
  runs where a child acks with an error. The callback tests \<open>err != nil\<close> beside the
  counter, so a child's error is passed upstream at once: with two children, the first
  child's error has reached the upstream while the second child has not acked.
\<close>

theorem fan_out_error_acks_upstream_early:
  "acked (fire_acks ack_ok [Some (Errorf ''boom'')] (dispatch 2 loop_start))
     = [Some (Errorf ''boom'')]"
  by (simp add: dispatch_def loop_start_def ack_callback_def ack_ok_def Let_def)

text \<open>
  C3, as amended. While fewer than N children have acked, the upstream has been acked if
  and only if one of those acks carried an error: in a run where every child acks with
  \<open>nil\<close> the upstream ack fires only after all N child acks, and then it fires; a
  child's error fires it without waiting for the other children.
\<close>

theorem fan_out_upstream_waits_for_nil_acks:
  "(length errs < n \<longrightarrow>
      (acked (fire_acks tsAck errs (dispatch n s)) = [] \<longleftrightarrow> (\<forall>e\<in>set errs. e = None))) \<and>
   (1 \<le> n \<and> length errs = n \<and> (\<forall>e\<in>set errs. e = None) \<longrightarrow>
      acked (fire_acks tsAck errs (dispatch n s)) = [None])"
proof (intro conjI impI)
  assume len: "length errs < n"
  show "acked (fire_acks tsAck errs (dispatch n s)) = [] \<longleftrightarrow> (\<forall>e\<in>set errs. e = None)"
  proof (cases "\<forall>e\<in>set errs. e = None")
    case True
    with fire_acks_all_nil [OF True len, of tsAck s] show ?thesis by simp
  next
    case False
    then have ex: "\<exists>e\<in>set errs. e \<noteq> None" by simp
    from len have "length errs \<le> n" by simp
    from fire_acks_some_error [OF ex this, of tsAck s] ex False show ?thesis
      by (simp add: filter_empty_conv)
  qed
next
  assume "1 \<le> n \<and> length errs = n \<and> (\<forall>e\<in>set errs. e = None)"
  then show "acked (fire_acks tsAck errs (dispatch n s)) = [None]"
    using fire_acks_all_nil_complete [of errs n tsAck s] by simp
qed

theorem fan_out_upstream_waits_for_nil_acks_witness:
  "acked (fire_acks ack_ok [None, None] (dispatch 3 loop_start)) = [] \<and>
   acked (fire_acks ack_ok [None, Some (Errorf ''boom'')] (dispatch 3 loop_start)) \<noteq> [] \<and>
   acked (fire_acks ack_ok [None, None, None] (dispatch 3 loop_start)) = [None]"
proof -
  from fan_out_upstream_waits_for_nil_acks [of "[None, None]" 3 ack_ok loop_start]
  have a: "acked (fire_acks ack_ok [None, None] (dispatch 3 loop_start)) = []" by simp
  from fan_out_upstream_waits_for_nil_acks [of "[None, Some (Errorf ''boom'')]" 3 ack_ok loop_start]
  have b: "acked (fire_acks ack_ok [None, Some (Errorf ''boom'')] (dispatch 3 loop_start)) \<noteq> []"
    by simp
  from fan_out_upstream_waits_for_nil_acks [of "[None, None, None]" 3 ack_ok loop_start]
  have c: "acked (fire_acks ack_ok [None, None, None] (dispatch 3 loop_start)) = [None]" by simp
  from a b c show ?thesis by simp
qed

section \<open>Consume and NewResource\<close>

lemma calls_already_started:
  assumes "\<And>a. f s a = (Some ErrAlreadyStarted, s)"
  shows "calls f s as = (replicate (length as) (Some ErrAlreadyStarted), s)"
  using assms by (induction as) simp_all

text \<open>
  C8. On a fan-out broker as \<open>newFanOutOutputBroker\<close> returns it, and on a resource
  output as \<open>NewResource\<close> returns it, the first call of \<open>Consume\<close> with an edge (a
  channel that is not \<open>nil\<close>) returns \<open>nil\<close>, binds that edge and starts the loop
  once; every call after it, with whatever channel, returns \<open>ErrAlreadyStarted\<close> and
  leaves the instance as it was: the edge is not rebound and no second loop starts.
\<close>

theorem Consume_twice_ErrAlreadyStarted:
  assumes "ts \<noteq> None"
  shows "(newFanOutOutputBroker answers = Inr b \<longrightarrow>
            fanOutOutputBroker_Consume b ts = (None, b\<lparr>transactions := ts, loops_started := 1\<rparr>) \<and>
            calls fanOutOutputBroker_Consume (snd (fanOutOutputBroker_Consume b ts)) tss
              = (replicate (length tss) (Some ErrAlreadyStarted),
                 b\<lparr>transactions := ts, loops_started := 1\<rparr>)) \<and>
         (NewResource conf mgr = Inr r \<longrightarrow>
            Resource_Consume r ts = (None, r\<lparr>res_transactions := ts, res_loops_started := 1\<rparr>) \<and>
            calls Resource_Consume (snd (Resource_Consume r ts)) tss
              = (replicate (length tss) (Some ErrAlreadyStarted),
                 r\<lparr>res_transactions := ts, res_loops_started := 1\<rparr>))"
proof (intro conjI impI)
  assume new: "newFanOutOutputBroker answers = Inr b"
  then have fresh: "transactions b = None" "loops_started b = 0"
    by (auto simp: newFanOutOutputBroker_def split: sum.splits)
  then show first: "fanOutOutputBroker_Consume b ts = (None, b\<lparr>transactions := ts, loops_started := 1\<rparr>)"
    by (simp add: fanOutOutputBroker_Consume_def)
  have "\<And>a. fanOutOutputBroker_Consume (b\<lparr>transactions := ts, loops_started := 1\<rparr>) a
          = (Some ErrAlreadyStarted, b\<lparr>transactions := ts, loops_started := 1\<rparr>)"
    using assms by (simp add: fanOutOutputBroker_Consume_def)
  from calls_already_started [of fanOutOutputBroker_Consume, OF this]
  show "calls fanOutOutputBroker_Consume (snd (fanOutOutputBroker_Consume b ts)) tss
          = (replicate (length tss) (Some ErrAlreadyStarted),
             b\<lparr>transactions := ts, loops_started := 1\<rparr>)"
    by (simp add: first)
next
  assume new: "NewResource conf mgr = Inr r"
  then have fresh: "res_transactions r = None" "res_loops_started r = 0"
    by (auto simp: NewResource_def split: if_splits)
  then show first: "Resource_Consume r ts = (None, r\<lparr>res_transactions := ts, res_loops_started := 1\<rparr>)"
    by (simp add: Resource_Consume_def)
  have "\<And>a. Resource_Consume (r\<lparr>res_transactions := ts, res_loops_started := 1\<rparr>) a
          = (Some ErrAlreadyStarted, r\<lparr>res_transactions := ts, res_loops_started := 1\<rparr>)"
    using assms by (simp add: Resource_Consume_def)
  from calls_already_started [of Resource_Consume, OF this]
  show "calls Resource_Consume (snd (Resource_Consume r ts)) tss
          = (replicate (length tss) (Some ErrAlreadyStarted),
             r\<lparr>res_transactions := ts, res_loops_started := 1\<rparr>)"
    by (simp add: first)
qed

theorem Consume_twice_ErrAlreadyStarted_witness:
  "newFanOutOutputBroker [None, None]
     = Inr \<lparr>transactions = None, outputTSChans = [0, 1], loops_started = 0\<rparr> \<and>
   calls fanOutOutputBroker_Consume
      \<lparr>transactions = None, outputTSChans = [0, 1], loops_started = 0\<rparr> [Some 7, Some 8, None]
     = ([None, Some ErrAlreadyStarted, Some ErrAlreadyStarted],
        \<lparr>transactions = Some 7, outputTSChans = [0, 1], loops_started = 1\<rparr>) \<and>
   NewResource \<lparr>Resource = ''foo''\<rparr> mgr_foo
     = Inr \<lparr>name = ''foo'', res_transactions = None, ctx_done = False, res_loops_started = 0\<rparr> \<and>
   calls Resource_Consume
      \<lparr>name = ''foo'', res_transactions = None, ctx_done = False, res_loops_started = 0\<rparr>
      [Some 7, Some 8, None]
     = ([None, Some ErrAlreadyStarted, Some ErrAlreadyStarted],
        \<lparr>name = ''foo'', res_transactions = Some 7, ctx_done = False, res_loops_started = 1\<rparr>)"
proof -
  define b0 where "b0 = \<lparr>transactions = None, outputTSChans = [0, 1], loops_started = 0\<rparr>"
  define r0 where
    "r0 = \<lparr>name = ''foo'', res_transactions = None, ctx_done = False, res_loops_started = 0\<rparr>"
  have ts: "Some (7::nat) \<noteq> None" by simp
  have b: "newFanOutOutputBroker [None, None] = Inr b0"
    by (simp add: newFanOutOutputBroker_def b0_def)
  have r: "NewResource \<lparr>Resource = ''foo''\<rparr> mgr_foo = Inr r0"
    by (simp add: NewResource_def mgr_foo_def r0_def)
  note inst = Consume_twice_ErrAlreadyStarted [OF ts, of "[None, None]" b0 "[Some 8, None]"
      "\<lparr>Resource = ''foo''\<rparr>" mgr_foo r0]
  from inst b have b1: "fanOutOutputBroker_Consume b0 (Some 7)
      = (None, b0\<lparr>transactions := Some 7, loops_started := 1\<rparr>)" by blast
  from inst b have b2: "calls fanOutOutputBroker_Consume (snd (fanOutOutputBroker_Consume b0 (Some 7)))
      [Some 8, None] = (replicate (length [Some (8::nat), None]) (Some ErrAlreadyStarted),
         b0\<lparr>transactions := Some 7, loops_started := 1\<rparr>)" by blast
  from inst r have r1: "Resource_Consume r0 (Some 7)
      = (None, r0\<lparr>res_transactions := Some 7, res_loops_started := 1\<rparr>)" by blast
  from inst r have r2: "calls Resource_Consume (snd (Resource_Consume r0 (Some 7)))
      [Some 8, None] = (replicate (length [Some (8::nat), None]) (Some ErrAlreadyStarted),
         r0\<lparr>res_transactions := Some 7, res_loops_started := 1\<rparr>)" by blast
  have cb: "calls fanOutOutputBroker_Consume b0 [Some 7, Some 8, None]
      = ([None, Some ErrAlreadyStarted, Some ErrAlreadyStarted],
         b0\<lparr>transactions := Some 7, loops_started := 1\<rparr>)"
    using b2 unfolding calls.simps(2) [of _ b0 "Some 7"] b1 by simp
  have cr: "calls Resource_Consume r0 [Some 7, Some 8, None]
      = ([None, Some ErrAlreadyStarted, Some ErrAlreadyStarted],
         r0\<lparr>res_transactions := Some 7, res_loops_started := 1\<rparr>)"
    using r2 unfolding calls.simps(2) [of _ r0 "Some 7"] r1 by simp
  from b r cb cr show ?thesis by (simp add: b0_def r0_def)
qed

text \<open>
  C10. When the manager does not hold the label (\<open>ProbeOutput\<close> answers false),
  \<open>NewResource\<close> returns the error \<open>output resource '<label>' was not found\<close> and no
  component: no output exists that could be handed a transaction.
\<close>

theorem NewResource_not_found:
  assumes "\<not> ProbeOutput mgr (Resource conf)"
  shows "NewResource conf mgr
           = Inl (Errorf (''output resource '' @ [CHR 0x27] @ Resource conf @ [CHR 0x27] @ '' was not found''))"
  using assms by (simp add: NewResource_def)

theorem NewResource_not_found_witness:
  "\<not> ProbeOutput mgr_foo ''bar'' \<and>
   NewResource \<lparr>Resource = ''bar''\<rparr> mgr_foo
     = Inl (Errorf (''output resource '' @ [CHR 0x27] @ ''bar'' @ [CHR 0x27] @ '' was not found''))"
proof -
  have h: "\<not> ProbeOutput mgr_foo (Resource \<lparr>Resource = ''bar''\<rparr>)"
    by (simp add: mgr_foo_def)
  from NewResource_not_found [OF h] h show ?thesis by simp
qed

section \<open>The Redis list writer and the MQTT writer\<close>

lemma mark_failed_all_ok:
  "\<forall>res\<in>set cmders. res = None \<Longrightarrow> mark_failed msg i cmders batchErr = batchErr"
  by (induction cmders arbitrary: i) simp_all

lemma mark_failed_from_Some:
  "\<exists>b'. mark_failed msg i cmders (Some b) = Some b' \<and>
      (\<forall>j. partErrors b' j =
         (if i \<le> j \<and> j < i + length cmders \<and> cmders ! (j - i) \<noteq> None
          then cmders ! (j - i) else partErrors b j))"
proof (induction cmders arbitrary: i b)
  case Nil
  then show ?case by auto
next
  case (Cons res cmders)
  show ?case
  proof (cases res)
    case None
    from Cons.IH [of "Suc i" b] obtain b' where
      b': "mark_failed msg (Suc i) cmders (Some b) = Some b'"
      and pe: "\<And>j. partErrors b' j =
         (if Suc i \<le> j \<and> j < Suc i + length cmders \<and> cmders ! (j - Suc i) \<noteq> None
          then cmders ! (j - Suc i) else partErrors b j)" by blast
    have "\<And>j. partErrors b' j =
         (if i \<le> j \<and> j < i + length (res # cmders) \<and> (res # cmders) ! (j - i) \<noteq> None
          then (res # cmders) ! (j - i) else partErrors b j)"
    proof -
      fix j
      show "partErrors b' j =
         (if i \<le> j \<and> j < i + length (res # cmders) \<and> (res # cmders) ! (j - i) \<noteq> None
          then (res # cmders) ! (j - i) else partErrors b j)"
      proof (cases "j \<le> i")
        case True
        then show ?thesis using None by (cases "j = i") (simp_all add: pe)
      next
        case False
        then have "j - i = Suc (j - Suc i)" by simp
        with False show ?thesis by (auto simp add: pe)
      qed
    qed
    with b' None show ?thesis by simp
  next
    case (Some e)
    from Cons.IH [of "Suc i" "Failed i e b"] obtain b' where
      b': "mark_failed msg (Suc i) cmders (Some (Failed i e b)) = Some b'"
      and pe: "\<And>j. partErrors b' j =
         (if Suc i \<le> j \<and> j < Suc i + length cmders \<and> cmders ! (j - Suc i) \<noteq> None
          then cmders ! (j - Suc i) else partErrors (Failed i e b) j)" by blast
    have "\<And>j. partErrors b' j =
         (if i \<le> j \<and> j < i + length (res # cmders) \<and> (res # cmders) ! (j - i) \<noteq> None
          then (res # cmders) ! (j - i) else partErrors b j)"
    proof -
      fix j
      show "partErrors b' j =
         (if i \<le> j \<and> j < i + length (res # cmders) \<and> (res # cmders) ! (j - i) \<noteq> None
          then (res # cmders) ! (j - i) else partErrors b j)"
      proof (cases "j \<le> i")
        case True
        then show ?thesis using Some by (cases "j = i") (simp_all add: pe Failed_def)
      next
        case False
        then have "j - i = Suc (j - Suc i)" by simp
        with False show ?thesis by (auto simp add: pe Failed_def)
      qed
    qed
    with b' Some show ?thesis by simp
  qed
qed

lemma mark_failed_from_None:
  "\<exists>res\<in>set cmders. res \<noteq> None \<Longrightarrow>
   \<exists>b'. mark_failed msg i cmders None = Some b' \<and>
      (\<forall>j. partErrors b' j = (if i \<le> j \<and> j < i + length cmders then cmders ! (j - i) else None))"
proof (induction cmders arbitrary: i)
  case Nil
  then show ?case by simp
next
  case (Cons res cmders)
  show ?case
  proof (cases res)
    case None
    with Cons.prems have "\<exists>res\<in>set cmders. res \<noteq> None" by simp
    from Cons.IH [OF this, of "Suc i"] obtain b' where
      b': "mark_failed msg (Suc i) cmders None = Some b'"
      and pe: "\<And>j. partErrors b' j =
         (if Suc i \<le> j \<and> j < Suc i + length cmders then cmders ! (j - Suc i) else None)" by blast
    have "\<And>j. partErrors b' j =
         (if i \<le> j \<and> j < i + length (res # cmders) then (res # cmders) ! (j - i) else None)"
    proof -
      fix j
      show "partErrors b' j =
         (if i \<le> j \<and> j < i + length (res # cmders) then (res # cmders) ! (j - i) else None)"
      proof (cases "j \<le> i")
        case True
        then show ?thesis using None by (cases "j = i") (simp_all add: pe)
      next
        case False
        then have "j - i = Suc (j - Suc i)" by simp
        with False show ?thesis by (auto simp add: pe)
      qed
    qed
    with b' None show ?thesis by simp
  next
    case (Some e)
    from mark_failed_from_Some [of msg "Suc i" cmders "Failed i e (NewError msg e)"] obtain b' where
      b': "mark_failed msg (Suc i) cmders (Some (Failed i e (NewError msg e))) = Some b'"
      and pe: "\<And>j. partErrors b' j =
         (if Suc i \<le> j \<and> j < Suc i + length cmders \<and> cmders ! (j - Suc i) \<noteq> None
          then cmders ! (j - Suc i) else partErrors (Failed i e (NewError msg e)) j)" by blast
    have "\<And>j. partErrors b' j =
         (if i \<le> j \<and> j < i + length (res # cmders) then (res # cmders) ! (j - i) else None)"
    proof -
      fix j
      show "partErrors b' j =
         (if i \<le> j \<and> j < i + length (res # cmders) then (res # cmders) ! (j - i) else None)"
      proof (cases "j \<le> i")
        case True
        then show ?thesis using Some
          by (cases "j = i") (simp_all add: pe Failed_def NewError_def)
      next
        case False
        then have "j - i = Suc (j - Suc i)" by simp
        with False show ?thesis by (auto simp add: pe Failed_def NewError_def)
      qed
    qed
    with b' Some show ?thesis by simp
  qed
qed


text \<open>
  C5. On a connected writer and a batch of more than one part, when the exec of the
  pipeline succeeds: if every command succeeded the write returns \<open>nil\<close>; if some
  command failed it returns a batch-error whose per-index record holds, at each index
  whose command failed, that command's error, and nothing at any other index. The writer
  stays connected in both cases.
\<close>

theorem WriteWithContext_batch_error:
  assumes "client r = Some c" and "1 < length msg"
    and "Exec c (map (\<lambda>p. (keyStr r 0 msg, data p)) msg) = (cmders, None)"
  shows "((\<forall>res\<in>set cmders. res = None) \<longrightarrow> WriteWithContext r msg = (None, r)) \<and>
         ((\<exists>res\<in>set cmders. res \<noteq> None) \<longrightarrow>
            (\<exists>b. WriteWithContext r msg = (Some (Batch b), r) \<and>
                 (\<forall>i. partErrors b i = (if i < length cmders then cmders ! i else None))))"
proof -
  from assms(2) obtain p q ps where msg: "msg = p # q # ps"
    by (cases msg; cases "tl msg") auto
  have w: "WriteWithContext r msg =
             (case mark_failed msg 0 cmders None of
                Some batchErr \<Rightarrow> (Some (Batch batchErr), r)
              | None \<Rightarrow> (None, r))"
    using assms(1) assms(3) unfolding WriteWithContext_def msg by simp
  show ?thesis
  proof (intro conjI impI)
    assume "\<forall>res\<in>set cmders. res = None"
    then show "WriteWithContext r msg = (None, r)"
      by (simp add: w mark_failed_all_ok)
  next
    assume "\<exists>res\<in>set cmders. res \<noteq> None"
    from mark_failed_from_None [OF this, of msg 0] obtain b where
      "mark_failed msg 0 cmders None = Some b"
      "\<forall>j. partErrors b j = (if j < length cmders then cmders ! j else None)"
      by auto
    then show "\<exists>b. WriteWithContext r msg = (Some (Batch b), r) \<and>
                 (\<forall>i. partErrors b i = (if i < length cmders then cmders ! i else None))"
      by (simp add: w)
  qed
qed

theorem WriteWithContext_batch_error_witness:
  "(\<exists>b. WriteWithContext \<lparr>client = Some second_fails, keyStr = key_list, closers = 0\<rparr>
           [payload [1], payload [2], payload [3]]
         = (Some (Batch b), \<lparr>client = Some second_fails, keyStr = key_list, closers = 0\<rparr>) \<and>
        partErrors b 0 = None \<and> partErrors b 1 = Some (Errorf ''WRONGTYPE'') \<and>
        partErrors b 2 = None \<and> partErrors b 3 = None) \<and>
   WriteWithContext \<lparr>client = Some all_succeed, keyStr = key_list, closers = 0\<rparr>
       [payload [1], payload [2], payload [3]]
     = (None, \<lparr>client = Some all_succeed, keyStr = key_list, closers = 0\<rparr>)"
proof -
  define r1 where "r1 = \<lparr>client = Some second_fails, keyStr = key_list, closers = 0\<rparr>"
  define r2 where "r2 = \<lparr>client = Some all_succeed, keyStr = key_list, closers = 0\<rparr>"
  define msg where "msg = [payload [1], payload [2], payload [3]]"
  have c1: "client r1 = Some second_fails" and c2: "client r2 = Some all_succeed"
    by (simp_all add: r1_def r2_def)
  have len: "1 < length msg" by (simp add: msg_def)
  have e1: "Exec second_fails (map (\<lambda>p. (keyStr r1 0 msg, data p)) msg)
              = ([None, Some (Errorf ''WRONGTYPE''), None], None)"
    by (simp add: second_fails_def msg_def upt_rec)
  have e2: "Exec all_succeed (map (\<lambda>p. (keyStr r2 0 msg, data p)) msg) = ([None, None, None], None)"
    by (simp add: all_succeed_def msg_def)
  from WriteWithContext_batch_error [OF c1 len e1]
  obtain b where b: "WriteWithContext r1 msg = (Some (Batch b), r1)"
    and pe: "\<And>i. partErrors b i
               = (if i < length [None, Some (Errorf ''WRONGTYPE''), None]
                  then [None, Some (Errorf ''WRONGTYPE''), None] ! i else None)"
    by auto
  have "partErrors b 0 = None" "partErrors b 1 = Some (Errorf ''WRONGTYPE'')"
    "partErrors b 2 = None" "partErrors b 3 = None"
    by (simp_all add: pe)
  with b have first: "\<exists>b. WriteWithContext r1 msg = (Some (Batch b), r1) \<and>
        partErrors b 0 = None \<and> partErrors b 1 = Some (Errorf ''WRONGTYPE'') \<and>
        partErrors b 2 = None \<and> partErrors b 3 = None" by blast
  from WriteWithContext_batch_error [OF c2 len e2]
  have second: "WriteWithContext r2 msg = (None, r2)" by simp
  from first second show ?thesis unfolding r1_def r2_def msg_def by blast
qed

text \<open>
  C4. The claim: \<open>WaitForClose\<close> returns \<open>nil\<close> only after the component has
  completed its shutdown, for every driver, the MQTT and Redis writers included. Both
  writers document \<open>WaitForClose\<close> as "blocks until the output has closed down" and
  implement it as \<open>return nil\<close>: right after \<open>CloseAsync\<close>, while the closing
  goroutine has not run and the client is still connected, it already answers \<open>nil\<close>;
  the client is disconnected only once that goroutine has run.
\<close>

theorem WaitForClose_returns_nil_while_connected:
  "MQTT_WaitForClose (MQTT_CloseAsync \<lparr>mqtt_client = Some 1, mqtt_closers = 0\<rparr>) 0 = None \<and>
   mqtt_client (MQTT_CloseAsync \<lparr>mqtt_client = Some 1, mqtt_closers = 0\<rparr>) = Some 1 \<and>
   mqtt_closers (MQTT_CloseAsync \<lparr>mqtt_client = Some 1, mqtt_closers = 0\<rparr>) = 1 \<and>
   mqtt_client (MQTT_closer (MQTT_CloseAsync \<lparr>mqtt_client = Some 1, mqtt_closers = 0\<rparr>)) = None \<and>
   RedisList_WaitForClose
     (RedisList_CloseAsync \<lparr>client = Some all_succeed, keyStr = key_list, closers = 0\<rparr>) 0 = None \<and>
   client (RedisList_CloseAsync \<lparr>client = Some all_succeed, keyStr = key_list, closers = 0\<rparr>)
     = Some all_succeed \<and>
   closers (RedisList_CloseAsync \<lparr>client = Some all_succeed, keyStr = key_list, closers = 0\<rparr>) = 1 \<and>
   client (RedisList_closer
     (RedisList_CloseAsync \<lparr>client = Some all_succeed, keyStr = key_list, closers = 0\<rparr>)) = None"
  by (simp add: MQTT_WaitForClose_def MQTT_CloseAsync_def MQTT_closer_def RedisList_WaitForClose_def
      RedisList_CloseAsync_def RedisList_closer_def disconnect_def)

section \<open>The archive processor\<close>










lemma first_part_Cons: "msg \<noteq> [] \<Longrightarrow> first_part msg = Inr (hd msg)"
  by (cases msg) (simp_all add: first_part_def)

lemma file_archive_metadata:
  assumes "msg \<noteq> []"
  shows "tarArchive pkg hFunc msg = Inr q \<Longrightarrow> metadata q = metadata (hd msg)"
    and "zipArchive pkg hFunc msg = Inr q \<Longrightarrow> metadata q = metadata (hd msg)"
  using assms
  by (auto simp: tarArchive_def zipArchive_def first_part_Cons Set_bytes_def
      split: prod.splits option.splits)

lemma plain_archive_metadata:
  assumes "msg \<noteq> []"
  shows "binaryArchive hFunc msg = Inr q \<Longrightarrow> metadata q = metadata (hd msg)"
    and "linesArchive hFunc msg = Inr q \<Longrightarrow> metadata q = metadata (hd msg)"
    and "concatenateArchive hFunc msg = Inr q \<Longrightarrow> metadata q = metadata (hd msg)"
  using assms
  by (auto simp: binaryArchive_def linesArchive_def concatenateArchive_def first_part_Cons
      Set_bytes_def)

lemma json_archive_metadata:
  assumes "msg \<noteq> []"
  shows "jsonArrayArchive js hFunc msg = Inr q \<Longrightarrow> metadata q = metadata (hd msg)"
  using assms
  by (auto simp: jsonArrayArchive_def first_part_Cons SetJSON_def split: sum.splits)

lemma strToArchiver_metadata:
  assumes "msg \<noteq> []" and "strToArchiver tar_pkg zip_pkg js str = Inr a" and "a hFunc msg = Inr q"
  shows "metadata q = metadata (hd msg)"
  using assms
  by (auto simp: strToArchiver_def split: if_splits
      dest: file_archive_metadata plain_archive_metadata json_archive_metadata)

lemma plain_archive_succeeds:
  assumes "msg \<noteq> []" and "strToArchiver tar_pkg zip_pkg js str = Inr a"
    and "str = ''binary'' \<or> str = ''lines'' \<or> str = ''concatenate''"
  shows "\<exists>newPart. a hFunc msg = Inr newPart"
  using assms
  by (auto simp: strToArchiver_def binaryArchive_def linesArchive_def concatenateArchive_def
      first_part_Cons)




text \<open>
  C9. On a batch of size 0 \<open>ProcessBatch\<close> returns no output batch and the error
  \<open>nil\<close>, whatever the processor's archiver and path are.
\<close>

theorem ProcessBatch_empty: "ProcessBatch d [] = ([], None)"
  by (simp add: ProcessBatch_def)

text \<open>
  C7. The claim: for every batch that is not empty \<open>ProcessBatch\<close> returns exactly one
  output batch. When the archiver returns an error \<open>ProcessBatch\<close> logs it and returns
  it with no batch: with the format \<open>json_array\<close>, a batch whose one part holds
  \<open>{\<close>, which is not a JSON document, yields no output batch.
\<close>

theorem ProcessBatch_json_array_error:
  "ProcessBatch \<lparr>archive = jsonArrayArchive null_only, path = path_txt\<rparr> [payload [123]]
     = ([], Some (Errorf ''failed to parse message as JSON: unexpected end of JSON input''))"
  by (simp add: ProcessBatch_def jsonArrayArchive_def part_JSON_def null_only_def payload_def)

text \<open>
  C7, as amended. Let the processor's archiver be the one \<open>strToArchiver\<close> gives for
  its format, and the batch of length n not be empty. When the archiver returns a part,
  \<open>ProcessBatch\<close> returns exactly one output batch of exactly one part, which has the
  metadata of the first part of the input batch and the collapsed count n. When the
  archiver returns an error, \<open>ProcessBatch\<close> returns no batch and that error. The
  \<open>binary\<close>, \<open>lines\<close> and \<open>concatenate\<close> archivers always return a part.
\<close>

theorem ProcessBatch_one_part:
  assumes "msg \<noteq> []" and "strToArchiver tar_pkg zip_pkg js str = Inr (archive d)"
  shows "(\<forall>newPart. archive d (createHeaderFunc d msg) msg = Inr newPart \<longrightarrow>
            (\<exists>out. ProcessBatch d msg = ([[out]], None) \<and> metadata out = metadata (hd msg) \<and>
                   collapsed out = Some (length msg))) \<and>
         (\<forall>e. archive d (createHeaderFunc d msg) msg = Inl e \<longrightarrow> ProcessBatch d msg = ([], Some e)) \<and>
         (str = ''binary'' \<or> str = ''lines'' \<or> str = ''concatenate'' \<longrightarrow>
            (\<exists>newPart. archive d (createHeaderFunc d msg) msg = Inr newPart))"
proof (intro conjI allI impI)
  fix newPart
  assume a: "archive d (createHeaderFunc d msg) msg = Inr newPart"
  from strToArchiver_metadata [OF assms a] have "metadata newPart = metadata (hd msg)" .
  with a assms(1) show "\<exists>out. ProcessBatch d msg = ([[out]], None) \<and>
      metadata out = metadata (hd msg) \<and> collapsed out = Some (length msg)"
    by (simp add: ProcessBatch_def WithCollapsedCount_def)
next
  fix e
  assume "archive d (createHeaderFunc d msg) msg = Inl e"
  with assms(1) show "ProcessBatch d msg = ([], Some e)"
    by (simp add: ProcessBatch_def)
next
  assume "str = ''binary'' \<or> str = ''lines'' \<or> str = ''concatenate''"
  from plain_archive_succeeds [OF assms this]
  show "\<exists>newPart. archive d (createHeaderFunc d msg) msg = Inr newPart" .
qed

theorem ProcessBatch_one_part_witness:
  "(\<exists>out. ProcessBatch \<lparr>archive = binaryArchive, path = path_txt\<rparr>
            [\<lparr>data = [1, 2], metadata = [(''k'', ''v'')], structured = None, collapsed = None\<rparr>,
             payload [3]] = ([[out]], None) \<and>
          metadata out = [(''k'', ''v'')] \<and> collapsed out = Some 2) \<and>
   ProcessBatch \<lparr>archive = jsonArrayArchive null_only, path = path_txt\<rparr> [payload [123]]
     = ([], Some (Errorf ''failed to parse message as JSON: unexpected end of JSON input'')) \<and>
   ProcessBatch \<lparr>archive = jsonArrayArchive null_only, path = path_txt\<rparr>
       [payload [110, 117, 108, 108], payload [110, 117, 108, 108]]
     = ([[\<lparr>data = [91, 110, 117, 108, 108, 44, 110, 117, 108, 108, 93], metadata = [],
           structured = Some (JArray [JNull, JNull]), collapsed = Some 2\<rparr>]], None)"
proof -
  define d1 where "d1 = \<lparr>archive = binaryArchive, path = path_txt\<rparr>"
  define d2 where "d2 = \<lparr>archive = jsonArrayArchive null_only, path = path_txt\<rparr>"
  define m1 where "m1 =
    [\<lparr>data = [1, 2], metadata = [(''k'', ''v'')], structured = None, collapsed = None\<rparr>, payload [3]]"
  define m2 where "m2 = [payload [123]]"
  define t :: "(unit, unit) file_archiver" where
    "t = \<lparr>NewWriter = (), FileInfoHeader = (\<lambda>fi. Inr ()), WriteHeader = (\<lambda>w h. Inr w),
          Write_content = (\<lambda>w b. Inr w), Close_buffer = (\<lambda>w. [])\<rparr>"
  have ne: "m1 \<noteq> []" "m2 \<noteq> []" by (simp_all add: m1_def m2_def)
  have s1: "strToArchiver t t null_only ''binary'' = Inr (archive d1)"
    by (simp add: strToArchiver_def d1_def)
  have s2: "strToArchiver t t null_only ''json_array'' = Inr (archive d2)"
    by (simp add: strToArchiver_def d2_def)
  from ProcessBatch_one_part [OF ne(1) s1]
  have "\<exists>out. ProcessBatch d1 m1 = ([[out]], None) \<and> metadata out = metadata (hd m1) \<and>
          collapsed out = Some (length m1)" by blast
  moreover have "metadata (hd m1) = [(''k'', ''v'')]" "length m1 = 2" by (simp_all add: m1_def)
  ultimately have a: "\<exists>out. ProcessBatch d1 m1 = ([[out]], None) \<and> metadata out = [(''k'', ''v'')] \<and>
          collapsed out = Some 2" by (simp only:)
  have "archive d2 (createHeaderFunc d2 m2) m2
          = Inl (Errorf ''failed to parse message as JSON: unexpected end of JSON input'')"
    by (simp add: d2_def m2_def jsonArrayArchive_def part_JSON_def null_only_def payload_def)
  with ProcessBatch_one_part [OF ne(2) s2]
  have b: "ProcessBatch d2 m2
             = ([], Some (Errorf ''failed to parse message as JSON: unexpected end of JSON input''))"
    by blast
  define m3 where "m3 = [payload [110, 117, 108, 108], payload [110, 117, 108, 108]]"
  define q where "q = \<lparr>data = [91, 110, 117, 108, 108, 44, 110, 117, 108, 108, 93 :: byte],
    metadata = [], structured = Some (JArray [JNull, JNull]), collapsed = None\<rparr>"
  have ne3: "m3 \<noteq> []" by (simp add: m3_def)
  have "archive d2 (createHeaderFunc d2 m3) m3 = Inr q"
    by (simp add: d2_def m3_def q_def jsonArrayArchive_def part_JSON_def null_only_def payload_def
        first_part_def SetJSON_def)
  with ProcessBatch_one_part [OF ne3 s2]
  obtain out where "ProcessBatch d2 m3 = ([[out]], None)" by blast
  moreover have "ProcessBatch d2 m3 = ([[WithCollapsedCount q (length m3)]], None)"
    using \<open>archive d2 (createHeaderFunc d2 m3) m3 = Inr q\<close> ne3 by (simp add: ProcessBatch_def)
  ultimately have c: "ProcessBatch d2 m3 = ([[q\<lparr>collapsed := Some 2\<rparr>]], None)"
    by (simp add: WithCollapsedCount_def m3_def)
  have q2: "q\<lparr>collapsed := Some 2\<rparr> =
    \<lparr>data = [91, 110, 117, 108, 108, 44, 110, 117, 108, 108, 93], metadata = [],
     structured = Some (JArray [JNull, JNull]), collapsed = Some 2\<rparr>" by (simp add: q_def)
  from a b c show ?thesis unfolding q2 unfolding d1_def d2_def m1_def m2_def m3_def by blast
qed

end
